theory Spec2Isabelle
  imports Main "HOL-Library.Word"
begin

unbundle bit_operations_syntax

section \<open>Data model of \<open>history/history_item.cpp\<close>\<close>

subsection \<open>Scalar types\<close>

text \<open>
  \<open>MsgId\<close> and \<open>TimeId\<close> are \<open>int32\<close>: 32-bit words read in two's complement
  (\<open>sint\<close>, \<open><s\<close>, \<open>\<le>s\<close>). The message flags are a 32-bit mask. A \<open>QString\<close> is a
  sequence of 16-bit code units; \<open>size()\<close> is its length.
\<close>

type_synonym MsgId = "32 word"
type_synonym TimeId = "32 word"
type_synonym Flags = "32 word"
type_synonym QChar = "16 word"
type_synonym QString = "QChar list"
type_synonym ItemRef = nat

subsection \<open>Declarations that live in headers outside the excerpt\<close>

text \<open>
  The flag constants tested by the code (\<open>MTPDmessage::Flag::f_out\<close>, \<open>f_mentioned\<close>,
  \<open>f_media_unread\<close>, \<open>f_post\<close> and \<open>MTPDmessage_ClientFlag::f_sending\<close>, \<open>f_failed\<close>,
  \<open>f_clientside_unread\<close>) and the id-range tests \<open>IsClientMsgId\<close>, \<open>IsServerMsgId\<close> are
  declared in headers. Their values are not fixed here: every operation takes them
  as the parameter \<open>D\<close>, and a theorem that needs a fact about them says so.
\<close>

datatype MessageFlag =
    f_out
  | f_mentioned
  | f_media_unread
  | f_post
  | f_sending
  | f_failed
  | f_clientside_unread

record Decls =
  flag :: "MessageFlag \<Rightarrow> Flags"
  IsClientMsgId :: "MsgId \<Rightarrow> bool"
  IsServerMsgId :: "MsgId \<Rightarrow> bool"

text \<open>The settings read through \<open>Global::\<close>.\<close>

record Global =
  RevokeTimeLimit :: TimeId
  RevokePrivateTimeLimit :: TimeId
  RevokePrivateInbox :: bool

subsection \<open>Peers\<close>

text \<open>
  A peer is a user, a basic group chat or a channel (\<open>asUser()\<close>, \<open>asChat()\<close>,
  \<open>asChannel()\<close> return the object of that kind or null). Each record holds the
  answers of the capability queries the code makes.
\<close>

record UserData =
  isBot :: bool
  isSupport :: bool

record ChatData =
  amCreator :: bool
  adminRights_delete_messages :: bool

record ChannelData =
  isMegagroup :: bool
  canDeleteMessages :: bool
  canPublish :: bool

datatype PeerKind = User UserData | Chat ChatData | Channel ChannelData

record PeerData =
  kind :: PeerKind
  isSelf :: bool
  migrateTo :: "nat option"

fun asUser :: "PeerData \<Rightarrow> UserData option" where
  "asUser p = (case kind p of User u \<Rightarrow> Some u | _ \<Rightarrow> None)"

fun asChat :: "PeerData \<Rightarrow> ChatData option" where
  "asChat p = (case kind p of Chat c \<Rightarrow> Some c | _ \<Rightarrow> None)"

fun asChannel :: "PeerData \<Rightarrow> ChannelData option" where
  "asChannel p = (case kind p of Channel c \<Rightarrow> Some c | _ \<Rightarrow> None)"

definition isUser :: "PeerData \<Rightarrow> bool" where
  "isUser p = (asUser p \<noteq> None)"

definition isChannel :: "PeerData \<Rightarrow> bool" where
  "isChannel p = (asChannel p \<noteq> None)"

subsection \<open>Messages and their conversation\<close>

record Media =
  allowsRevoke :: bool
  media_notificationText :: QString

record HistoryMessageReplyMarkup =
  markup_f_inline :: bool
  inlineKeyboard :: bool

text \<open>
  The optional components of a message. Only the reply markup and the pinned-service
  component are inspected by the operations below; the others are carried along.
\<close>

record Components =
  Reply :: "MsgId option"
  Forwarded :: "nat option"
  Via :: "nat option"
  Signed :: "QString option"
  ReplyMarkup :: "HistoryMessageReplyMarkup option"
  LogEntryOriginal :: "nat option"
  ServicePinned :: "nat option"

text \<open>
  \<open>this\<close> is the identity of the object (its address). \<open>serviceMsg\<close> and
  \<open>toHistoryMessage\<close> are the answers of the two virtual queries; \<open>isLogEntry\<close> and
  \<open>isGroupMigrate\<close> the answers of two header accessors.
\<close>

record HistoryItem =
  this :: ItemRef
  itemId :: MsgId
  flags :: Flags
  date :: TimeId
  groupId :: "64 word"
  components :: Components
  media :: "Media option"
  itemText :: QString
  serviceMsg :: bool
  toHistoryMessage :: bool
  isLogEntry :: bool
  isGroupMigrate :: bool

record History =
  peer :: PeerData
  localMessages :: "ItemRef set"
  serverSideUnread :: "ItemRef set"
  notifyAboutPinned :: bool

datatype Event =
    NotifyItemIdChange ItemRef MsgId
  | UpdateMessageId ItemRef
  | RequestItemRepaint ItemRef
  | PeerUpdatedDelayed_ChannelLocalMessages
  | UpdateChatListEntry
  | EraseFromUnreadMentions MsgId

datatype Error = ExpectsFailed

type_synonym Outcome = "Error + (History \<times> HistoryItem \<times> Event list)"

section \<open>Operations\<close>

subsection \<open>Flag tests\<close>

definition hasFlag :: "Decls \<Rightarrow> HistoryItem \<Rightarrow> MessageFlag \<Rightarrow> bool" where
  "hasFlag D it f = (flags it AND flag D f \<noteq> 0)"

text \<open>
  Modelled from the spec: the accessor \<open>out()\<close> is defined in the header; the spec
  lists \<^emph>\<open>outgoing\<close> among the flags of a message.
\<close>

definition out :: "Decls \<Rightarrow> HistoryItem \<Rightarrow> bool" where
  "out D it = hasFlag D it f_out"

text \<open>
  Modelled from the spec: the accessor \<open>isPost()\<close> is defined in the header; the spec
  lists \<^emph>\<open>is-channel-post\<close> among the flags of a message.
\<close>

definition isPost :: "Decls \<Rightarrow> HistoryItem \<Rightarrow> bool" where
  "isPost D it = hasFlag D it f_post"

text \<open>
  Modelled from the spec: \<open>History::unregisterLocalMessage\<close> is defined outside the
  excerpt; the conversation keeps an index of its local messages and the call takes
  the message out of it.
\<close>

definition unregisterLocalMessage :: "History \<Rightarrow> HistoryItem \<Rightarrow> History" where
  "unregisterLocalMessage h it = h\<lparr>localMessages := localMessages h - {this it}\<rparr>"

text \<open>
  Modelled from the spec: \<open>History::isServerSideUnread\<close> is defined outside the
  excerpt; it answers whether the conversation's server-side read position has not
  yet passed the message. The conversation holds the set of messages for which the
  answer is yes.
\<close>

definition isServerSideUnread :: "History \<Rightarrow> HistoryItem \<Rightarrow> bool" where
  "isServerSideUnread h it = (this it \<in> serverSideUnread h)"

subsection \<open>\<open>HistoryItem::inlineReplyMarkup\<close>\<close>

definition inlineReplyMarkup :: "HistoryItem \<Rightarrow> HistoryMessageReplyMarkup option" where
  "inlineReplyMarkup it =
     (case ReplyMarkup (components it) of
        Some markup \<Rightarrow> if markup_f_inline markup then Some markup else None
      | None \<Rightarrow> None)"

subsection \<open>\<open>HistoryItem::setRealId\<close>\<close>

definition setRealId :: "Decls \<Rightarrow> MsgId \<Rightarrow> History \<times> HistoryItem \<Rightarrow> Outcome" where
  "setRealId D newId st =
     (case st of (h, it) \<Rightarrow>
        if \<not> hasFlag D it f_sending then Inl ExpectsFailed
        else if \<not> IsClientMsgId D (itemId it) then Inl ExpectsFailed
        else
          let oldId = itemId it;
              it1 = it\<lparr>itemId := newId\<rparr>;
              it2 = it1\<lparr>flags := flags it1 AND NOT (flag D f_sending)\<rparr>;
              h1 = (if IsServerMsgId D (itemId it2)
                    then unregisterLocalMessage h it2 else h);
              keyboard = (case inlineReplyMarkup it2 of
                            Some markup \<Rightarrow>
                              if inlineKeyboard markup
                              then [UpdateMessageId (this it2)] else []
                          | None \<Rightarrow> [])
          in Inr (h1, it2,
                  [NotifyItemIdChange (this it2) oldId] @ keyboard
                    @ [RequestItemRepaint (this it2)]))"

subsection \<open>\<open>HistoryItem::sendFailed\<close>\<close>

definition sendFailed :: "Decls \<Rightarrow> History \<times> HistoryItem \<Rightarrow> Outcome" where
  "sendFailed D st =
     (case st of (h, it) \<Rightarrow>
        if \<not> hasFlag D it f_sending then Inl ExpectsFailed
        else if hasFlag D it f_failed then Inl ExpectsFailed
        else
          let it1 = it\<lparr>flags := (flags it OR flag D f_failed)
                                   AND NOT (flag D f_sending)\<rparr>
          in Inr (h, it1,
                  if isChannel (peer h)
                  then [PeerUpdatedDelayed_ChannelLocalMessages] else []))"

subsection \<open>\<open>HistoryItem::mentionsMe\<close> and \<open>HistoryItem::markMediaRead\<close>\<close>

definition mentionsMe :: "Decls \<Rightarrow> History \<Rightarrow> HistoryItem \<Rightarrow> bool" where
  "mentionsMe D h it =
     (if ServicePinned (components it) \<noteq> None \<and> \<not> notifyAboutPinned h then False
      else hasFlag D it f_mentioned)"

definition markMediaRead ::
  "Decls \<Rightarrow> History \<times> HistoryItem \<Rightarrow> History \<times> HistoryItem \<times> Event list" where
  "markMediaRead D st =
     (case st of (h, it) \<Rightarrow>
        let it1 = it\<lparr>flags := flags it AND NOT (flag D f_media_unread)\<rparr>
        in (h, it1,
            if mentionsMe D h it1
            then [UpdateChatListEntry, EraseFromUnreadMentions (itemId it1)] else []))"

subsection \<open>\<open>HistoryItem::unread\<close>\<close>

definition unread :: "Decls \<Rightarrow> History \<Rightarrow> HistoryItem \<Rightarrow> bool" where
  "unread D h it =
     (if isSelf (peer h) then False
      else if out D it then
        (if migrateTo (peer h) \<noteq> None then False
         else if IsServerMsgId D (itemId it) then
           (if \<not> isServerSideUnread h it then False
            else (case asUser (peer h) of
                    Some user \<Rightarrow> (if isBot user then False else True)
                  | None \<Rightarrow>
                     (case asChannel (peer h) of
                        Some channel \<Rightarrow> (if \<not> isMegagroup channel then False else True)
                      | None \<Rightarrow> True)))
         else True)
      else if IsServerMsgId D (itemId it) then
        (if \<not> isServerSideUnread h it then False else True)
      else hasFlag D it f_clientside_unread)"

subsection \<open>\<open>HistoryItem::canDelete\<close>\<close>

definition canDelete :: "Decls \<Rightarrow> History \<Rightarrow> HistoryItem \<Rightarrow> bool" where
  "canDelete D h it =
     (if isLogEntry it \<or> (\<not> IsServerMsgId D (itemId it) \<and> serviceMsg it) then False
      else (case asChannel (peer h) of
              None \<Rightarrow> \<not> isGroupMigrate it
            | Some channel \<Rightarrow>
                if itemId it = 1 then False
                else if canDeleteMessages channel then True
                else if out D it \<and> toHistoryMessage it
                then (if isPost D it then canPublish channel else True)
                else False))"

subsection \<open>\<open>HistoryItem::canDeleteForEveryone\<close>\<close>

text \<open>
  \<open>now - date()\<close> is a subtraction of two \<open>int32\<close> values, compared as signed numbers
  with the limit. Where the mathematical difference leaves the \<open>int32\<close> range the C++
  is undefined; the model takes the two's complement result.
\<close>

definition messageTooOld :: "Global \<Rightarrow> History \<Rightarrow> HistoryItem \<Rightarrow> TimeId \<Rightarrow> bool" where
  "messageTooOld G h it now =
     (if isSelf (peer h) then False
      else if isUser (peer h) then RevokePrivateTimeLimit G \<le>s now - date it
      else RevokeTimeLimit G \<le>s now - date it)"

definition canDeleteForEveryone ::
  "Decls \<Rightarrow> Global \<Rightarrow> History \<Rightarrow> HistoryItem \<Rightarrow> TimeId \<Rightarrow> bool" where
  "canDeleteForEveryone D G h it now =
     (if itemId it <s 0 \<or> isSelf (peer h) \<or> messageTooOld G h it now \<or> isPost D it
      then False
      else if isChannel (peer h) then False
      else if (case asUser (peer h) of
                 Some user \<Rightarrow> isBot user \<and> \<not> isSupport user
               | None \<Rightarrow> False) then False
      else if \<not> isUser (peer h) \<and>
              (if \<not> toHistoryMessage it then True
               else (case media it of
                       Some m \<Rightarrow> \<not> allowsRevoke m
                     | None \<Rightarrow> False)) then False
      else if \<not> out D it then
        (case asChat (peer h) of
           Some chat \<Rightarrow>
             (if \<not> amCreator chat \<and> \<not> adminRights_delete_messages chat
              then False else True)
         | None \<Rightarrow> (if isUser (peer h) then RevokePrivateInbox G else False))
      else True)"

subsection \<open>\<open>CheckMessageMedia\<close>\<close>

text \<open>
  The wire types, reduced to what the classifier looks at: the constructor of the
  media, the constructor of its mandatory inner object, and whether the optional
  fields \<open>photo\<close>, \<open>document\<close> and \<open>ttl_seconds\<close> are present.
\<close>

datatype MediaCheckResult = Good | Unsupported | Empty | HasTimeToLive

datatype MTPGeoPoint = MTPDgeoPoint | MTPDgeoPointEmpty
datatype MTPPhoto = MTPDphoto | MTPDphotoEmpty
datatype MTPDocument = MTPDdocument | MTPDdocumentEmpty
datatype MTPWebPage =
  MTPDwebPage | MTPDwebPageEmpty | MTPDwebPagePending | MTPDwebPageNotModified
datatype MTPGame = MTPDgame

datatype MTPMessageMedia =
    MTPDmessageMediaEmpty
  | MTPDmessageMediaContact
  | MTPDmessageMediaGeo MTPGeoPoint
  | MTPDmessageMediaVenue MTPGeoPoint
  | MTPDmessageMediaGeoLive MTPGeoPoint
  | MTPDmessageMediaPhoto "MTPPhoto option" "32 word option"
  | MTPDmessageMediaDocument "MTPDocument option" "32 word option"
  | MTPDmessageMediaWebPage MTPWebPage
  | MTPDmessageMediaGame MTPGame
  | MTPDmessageMediaInvoice
  | MTPDmessageMediaPoll
  | MTPDmessageMediaUnsupported

fun checkGeo :: "MTPGeoPoint \<Rightarrow> MediaCheckResult" where
  "checkGeo MTPDgeoPoint = Good"
| "checkGeo MTPDgeoPointEmpty = Empty"

fun CheckMessageMedia :: "MTPMessageMedia \<Rightarrow> MediaCheckResult" where
  "CheckMessageMedia MTPDmessageMediaEmpty = Good"
| "CheckMessageMedia MTPDmessageMediaContact = Good"
| "CheckMessageMedia (MTPDmessageMediaGeo vgeo) = checkGeo vgeo"
| "CheckMessageMedia (MTPDmessageMediaVenue vgeo) = checkGeo vgeo"
| "CheckMessageMedia (MTPDmessageMediaGeoLive vgeo) = checkGeo vgeo"
| "CheckMessageMedia (MTPDmessageMediaPhoto vphoto vttl_seconds) =
     (if vttl_seconds \<noteq> None then HasTimeToLive
      else (case vphoto of
              None \<Rightarrow> Empty
            | Some MTPDphoto \<Rightarrow> Good
            | Some MTPDphotoEmpty \<Rightarrow> Empty))"
| "CheckMessageMedia (MTPDmessageMediaDocument vdocument vttl_seconds) =
     (if vttl_seconds \<noteq> None then HasTimeToLive
      else (case vdocument of
              None \<Rightarrow> Empty
            | Some MTPDdocument \<Rightarrow> Good
            | Some MTPDdocumentEmpty \<Rightarrow> Empty))"
| "CheckMessageMedia (MTPDmessageMediaWebPage vwebpage) =
     (case vwebpage of
        MTPDwebPage \<Rightarrow> Good
      | MTPDwebPageEmpty \<Rightarrow> Good
      | MTPDwebPagePending \<Rightarrow> Good
      | MTPDwebPageNotModified \<Rightarrow> Unsupported)"
| "CheckMessageMedia (MTPDmessageMediaGame vgame) = (case vgame of MTPDgame \<Rightarrow> Good)"
| "CheckMessageMedia MTPDmessageMediaInvoice = Good"
| "CheckMessageMedia MTPDmessageMediaPoll = Good"
| "CheckMessageMedia MTPDmessageMediaUnsupported = Unsupported"

subsection \<open>\<open>HistoryItem::notificationText\<close>\<close>

definition kNotificationTextLimit :: nat where
  "kNotificationTextLimit = 255"

text \<open>\<open>qsl("...")\<close>: three full stops.\<close>

definition ellipsis :: QString where
  "ellipsis = [0x2E, 0x2E, 0x2E]"

text \<open>\<open>QString::mid(position, n)\<close> for a position and a count that are not negative.\<close>

definition mid :: "QString \<Rightarrow> nat \<Rightarrow> nat \<Rightarrow> QString" where
  "mid s position n = take n (drop position s)"

text \<open>
  Modelled from the spec: \<open>emptyText()\<close> is a header accessor; the body text is empty
  when it has no characters.
\<close>

definition emptyText :: "HistoryItem \<Rightarrow> bool" where
  "emptyText it = (itemText it = [])"

definition summary :: "HistoryItem \<Rightarrow> QString" where
  "summary it =
     (case media it of
        Some m \<Rightarrow> media_notificationText m
      | None \<Rightarrow> if \<not> emptyText it then itemText it else [])"

definition notificationText :: "HistoryItem \<Rightarrow> QString" where
  "notificationText it =
     (let result = summary it
      in if length result \<le> kNotificationTextLimit then result
         else mid result 0 kNotificationTextLimit @ ellipsis)"

subsection \<open>Sequences of reconciliation calls\<close>

datatype Reconcile = SetRealId MsgId | SendFailed

fun reconcile :: "Decls \<Rightarrow> Reconcile \<Rightarrow> History \<times> HistoryItem \<Rightarrow> Outcome" where
  "reconcile D (SetRealId newId) st = setRealId D newId st"
| "reconcile D SendFailed st = sendFailed D st"

text \<open>A failed \<open>Expects\<close> ends the program: the rest of the calls never run.\<close>

fun reconcileAll ::
  "Decls \<Rightarrow> Reconcile list \<Rightarrow> History \<times> HistoryItem \<Rightarrow> Outcome" where
  "reconcileAll D [] st = Inr (fst st, snd st, [])"
| "reconcileAll D (c # cs) st =
     (case reconcile D c st of
        Inl e \<Rightarrow> Inl e
      | Inr (h, it, evs) \<Rightarrow>
          (case reconcileAll D cs (h, it) of
             Inl e \<Rightarrow> Inl e
           | Inr (h1, it1, evs1) \<Rightarrow> Inr (h1, it1, evs @ evs1)))"

definition atMostOneOfSendingFailed :: "Decls \<Rightarrow> HistoryItem \<Rightarrow> bool" where
  "atMostOneOfSendingFailed D it = (\<not> (hasFlag D it f_sending \<and> hasFlag D it f_failed))"

subsection \<open>Vocabulary of the decision tables\<close>

text \<open>The peer is a user that is a bot.\<close>

definition isBotPeer :: "PeerData \<Rightarrow> bool" where
  "isBotPeer p = (case asUser p of Some user \<Rightarrow> isBot user | None \<Rightarrow> False)"

text \<open>The peer is a channel that is not a megagroup.\<close>

definition isBroadcastChannel :: "PeerData \<Rightarrow> bool" where
  "isBroadcastChannel p =
     (case asChannel p of Some channel \<Rightarrow> \<not> isMegagroup channel | None \<Rightarrow> False)"

text \<open>The revoke limit that applies to the conversation: the private one for a user peer.\<close>

definition revokeThreshold :: "Global \<Rightarrow> History \<Rightarrow> TimeId" where
  "revokeThreshold G h =
     (if isUser (peer h) then RevokePrivateTimeLimit G else RevokeTimeLimit G)"

section \<open>Sample data\<close>

text \<open>
  One choice of the header declarations, to run the operations on concrete messages:
  every flag on a bit of its own, the negative ids local and the positive ids
  server-assigned. The theorems below do not depend on this choice.
\<close>

definition sampleFlag :: "MessageFlag \<Rightarrow> Flags" where
  "sampleFlag f =
     (case f of
        f_out \<Rightarrow> 0x2
      | f_mentioned \<Rightarrow> 0x10
      | f_media_unread \<Rightarrow> 0x20
      | f_post \<Rightarrow> 0x4000
      | f_sending \<Rightarrow> 0x800000
      | f_failed \<Rightarrow> 0x400000
      | f_clientside_unread \<Rightarrow> 0x2000000)"

definition sampleDecls :: Decls where
  "sampleDecls =
     \<lparr>flag = sampleFlag,
      IsClientMsgId = (\<lambda>i. i <s 0),
      IsServerMsgId = (\<lambda>i. 0 <s i)\<rparr>"

definition noComponents :: Components where
  "noComponents =
     \<lparr>Reply = None, Forwarded = None, Via = None, Signed = None,
      ReplyMarkup = None, LogEntryOriginal = None, ServicePinned = None\<rparr>"

definition sampleItem :: "MsgId \<Rightarrow> Flags \<Rightarrow> HistoryItem" where
  "sampleItem i fl =
     \<lparr>this = 7, itemId = i, flags = fl, date = 1500000000, groupId = 0,
      components = noComponents, media = None, itemText = [],
      serviceMsg = False, toHistoryMessage = True,
      isLogEntry = False, isGroupMigrate = False\<rparr>"

definition sampleHistory :: "PeerKind \<Rightarrow> History" where
  "sampleHistory k =
     \<lparr>peer = \<lparr>kind = k, isSelf = False, migrateTo = None\<rparr>,
      localMessages = {7}, serverSideUnread = {7}, notifyAboutPinned = True\<rparr>"

definition userPeer :: "bool \<Rightarrow> PeerKind" where
  "userPeer b = User \<lparr>isBot = b, isSupport = False\<rparr>"

definition chatPeer :: PeerKind where
  "chatPeer = Chat \<lparr>amCreator = False, adminRights_delete_messages = False\<rparr>"

definition channelPeer :: "bool \<Rightarrow> bool \<Rightarrow> PeerKind" where
  "channelPeer mega candel =
     Channel \<lparr>isMegagroup = mega, canDeleteMessages = candel, canPublish = False\<rparr>"

definition selfHistory :: History where
  "selfHistory =
     \<lparr>peer = \<lparr>kind = userPeer False, isSelf = True, migrateTo = None\<rparr>,
      localMessages = {7}, serverSideUnread = {7}, notifyAboutPinned = True\<rparr>"

definition sampleGlobal :: Global where
  "sampleGlobal =
     \<lparr>RevokeTimeLimit = 172800, RevokePrivateTimeLimit = 172800,
      RevokePrivateInbox = False\<rparr>"

lemmas sample_simps =
  sampleDecls_def sampleFlag_def sampleItem_def sampleHistory_def noComponents_def
  word_sless_alt word_sle_eq hasFlag_def

lemmas peer_simps =
  userPeer_def chatPeer_def channelPeer_def selfHistory_def sampleGlobal_def
  isUser_def isChannel_def

section \<open>Properties\<close>

subsection \<open>Bit masks\<close>

lemma flags_clear: "(x AND NOT m) AND m = (0::32 word)"
  by (simp add: bit_eq_iff bit_simps)

lemma flag_set_disjoint:
  "ff AND fs = 0 \<Longrightarrow> ff \<noteq> 0 \<Longrightarrow> ((x OR ff) AND NOT fs) AND ff \<noteq> (0::32 word)"
proof -
  assume d: "ff AND fs = 0" and n: "ff \<noteq> 0"
  from n obtain k where k: "bit ff k" by (auto simp: bit_eq_iff)
  then have "k < 32" using bit_imp_le_length [of ff k] by simp
  with d k have "\<not> bit fs k" by (auto simp: bit_eq_iff bit_simps)
  with k have "bit (((x OR ff) AND NOT fs) AND ff) k"
    by (auto simp: bit_simps dest: bit_imp_le_length)
  then have "((x OR ff) AND NOT fs) AND ff \<noteq> 0" by (auto simp del: bit_and_iff)
  then show ?thesis .
qed

subsection \<open>Identity reconciliation\<close>

text \<open>
  Claim C1. On a message that is being sent and whose id is in the client range,
  \<open>setRealId newId\<close> succeeds; afterwards the id is \<open>newId\<close>, the sending flag is
  clear, the message is out of the conversation's index of local messages if \<open>newId\<close>
  is a server id (and the index is untouched if it is not), and the id-change
  notification carrying the old id has been sent.
\<close>

theorem setRealId_confirms:
  assumes "hasFlag D it f_sending" and "IsClientMsgId D (itemId it)"
  shows "case setRealId D newId (h, it) of
           Inl e \<Rightarrow> False
         | Inr (h', it', evs) \<Rightarrow>
             itemId it' = newId
           \<and> \<not> hasFlag D it' f_sending
           \<and> this it' = this it
           \<and> localMessages h' =
               (if IsServerMsgId D newId then localMessages h - {this it}
                else localMessages h)
           \<and> (if IsServerMsgId D newId then this it \<notin> localMessages h' else True)
           \<and> NotifyItemIdChange (this it) (itemId it) \<in> set evs"
  using assms
  by (simp add: setRealId_def Let_def hasFlag_def unregisterLocalMessage_def flags_clear)

theorem setRealId_confirms_witness:
  "hasFlag sampleDecls (sampleItem (- 5) 0x800000) f_sending
   \<and> IsClientMsgId sampleDecls (itemId (sampleItem (- 5) 0x800000))
   \<and> setRealId sampleDecls 9001 (sampleHistory (User \<lparr>isBot = False, isSupport = False\<rparr>), sampleItem (- 5) 0x800000)
      = Inr ((sampleHistory (User \<lparr>isBot = False, isSupport = False\<rparr>))\<lparr>localMessages := {}\<rparr>,
             sampleItem 9001 0,
             [NotifyItemIdChange 7 (- 5), RequestItemRepaint 7])"
  using setRealId_confirms [of sampleDecls "sampleItem (- 5) 0x800000" 9001
      "sampleHistory (User \<lparr>isBot = False, isSupport = False\<rparr>)"]
  by (simp add: setRealId_def Let_def unregisterLocalMessage_def
      inlineReplyMarkup_def sample_simps)

text \<open>
  Claim C2. With the failed flag on a bit that the sending flag does not cover:
  on a message that is being sent and has not failed, \<open>sendFailed\<close> succeeds, sets
  the failed flag, clears the sending flag, keeps the id, and schedules the
  channel-local-messages notification exactly when the peer is a channel; on any
  other message the \<open>Expects\<close> fails.
\<close>

theorem sendFailed_marks_failed:
  assumes "flag D f_failed AND flag D f_sending = 0" and "flag D f_failed \<noteq> 0"
  shows "if hasFlag D it f_sending \<and> \<not> hasFlag D it f_failed
         then (case sendFailed D (h, it) of
                 Inl e \<Rightarrow> False
               | Inr (h', it', evs) \<Rightarrow>
                   hasFlag D it' f_failed
                 \<and> \<not> hasFlag D it' f_sending
                 \<and> itemId it' = itemId it
                 \<and> (PeerUpdatedDelayed_ChannelLocalMessages \<in> set evs)
                     = isChannel (peer h))
         else sendFailed D (h, it) = Inl ExpectsFailed"
  using assms
  by (auto simp: sendFailed_def Let_def hasFlag_def flags_clear flag_set_disjoint)

theorem sendFailed_marks_failed_witness:
  "flag sampleDecls f_failed AND flag sampleDecls f_sending = 0
   \<and> flag sampleDecls f_failed \<noteq> 0
   \<and> sendFailed sampleDecls
        (sampleHistory (Channel \<lparr>isMegagroup = False, canDeleteMessages = False,
                                  canPublish = True\<rparr>),
         sampleItem (- 17) 0x800000)
      = Inr (sampleHistory (Channel \<lparr>isMegagroup = False, canDeleteMessages = False,
                                       canPublish = True\<rparr>),
             sampleItem (- 17) 0x400000,
             [PeerUpdatedDelayed_ChannelLocalMessages])
   \<and> sendFailed sampleDecls
        (sampleHistory (Channel \<lparr>isMegagroup = False, canDeleteMessages = False,
                                  canPublish = True\<rparr>),
         sampleItem (- 17) 0x400000)
      = Inl ExpectsFailed"
  using
    sendFailed_marks_failed [of sampleDecls "sampleItem (- 17) 0x800000"
      "sampleHistory (Channel \<lparr>isMegagroup = False, canDeleteMessages = False,
                                 canPublish = True\<rparr>)"]
    sendFailed_marks_failed [of sampleDecls "sampleItem (- 17) 0x400000"
      "sampleHistory (Channel \<lparr>isMegagroup = False, canDeleteMessages = False,
                                 canPublish = True\<rparr>)"]
  by (simp add: sendFailed_def Let_def isChannel_def sample_simps)

lemma reconcile_clears_sending:
  "reconcile D c (h, it) = Inr (h', it', evs) \<Longrightarrow> \<not> hasFlag D it' f_sending"
  by (cases c)
     (auto simp: setRealId_def sendFailed_def Let_def hasFlag_def flags_clear
           split: if_splits)

text \<open>
  Claim C3. Whatever sequence of \<open>setRealId\<close> and \<open>sendFailed\<close> calls runs to its
  end on a message that does not have both the sending and the failed flag, the
  message does not have both afterwards. (Every prefix of a sequence is a sequence,
  so this holds after each call.)
\<close>

theorem reconcile_keeps_exclusion:
  assumes "atMostOneOfSendingFailed D it"
    and "reconcileAll D cs (h, it) = Inr (h', it', evs)"
  shows "atMostOneOfSendingFailed D it'"
  using assms
proof (induction cs arbitrary: h it evs)
  case Nil
  then show ?case by simp
next
  case (Cons c cs)
  from Cons.prems(2) obtain h1 it1 evs1 where
    step: "reconcile D c (h, it) = Inr (h1, it1, evs1)"
    by (auto split: sum.splits)
  with Cons.prems(2) obtain evs2 where
    rest: "reconcileAll D cs (h1, it1) = Inr (h', it', evs2)"
    by (auto split: sum.splits)
  from step have "\<not> hasFlag D it1 f_sending" by (rule reconcile_clears_sending)
  then have "atMostOneOfSendingFailed D it1"
    by (simp add: atMostOneOfSendingFailed_def)
  then show ?case using rest by (rule Cons.IH)
qed

theorem reconcile_keeps_exclusion_witness:
  "atMostOneOfSendingFailed sampleDecls (sampleItem (- 17) 0x800000)
   \<and> reconcileAll sampleDecls [SendFailed]
        (sampleHistory (Chat \<lparr>amCreator = False, adminRights_delete_messages = False\<rparr>),
         sampleItem (- 17) 0x800000)
      = Inr (sampleHistory (Chat \<lparr>amCreator = False, adminRights_delete_messages = False\<rparr>),
             sampleItem (- 17) 0x400000, [])
   \<and> atMostOneOfSendingFailed sampleDecls (sampleItem (- 17) 0x400000)"
  using reconcile_keeps_exclusion [of sampleDecls "sampleItem (- 17) 0x800000" "[SendFailed]"
      "sampleHistory (Chat \<lparr>amCreator = False, adminRights_delete_messages = False\<rparr>)"
      "sampleHistory (Chat \<lparr>amCreator = False, adminRights_delete_messages = False\<rparr>)"
      "sampleItem (- 17) 0x400000" "[]"]
  by (simp add: sendFailed_def Let_def isChannel_def atMostOneOfSendingFailed_def
      sample_simps)

text \<open>
  Claim C4. After a successful \<open>setRealId\<close> or \<open>sendFailed\<close>, any further
  \<open>setRealId\<close> or \<open>sendFailed\<close> on the message fails its \<open>Expects\<close>: a sequence of
  two or more reconciliation calls never runs to its end.
\<close>

theorem reconcile_single_shot:
  assumes "reconcile D c (h, it) = Inr (h', it', evs)"
  shows "reconcile D c' (h', it') = Inl ExpectsFailed
       \<and> reconcileAll D (c # c' # cs) (h, it) = Inl ExpectsFailed"
proof -
  from assms have "\<not> hasFlag D it' f_sending" by (rule reconcile_clears_sending)
  then have second: "reconcile D c' (h', it') = Inl ExpectsFailed"
    by (cases c') (simp_all add: setRealId_def sendFailed_def)
  with assms show ?thesis by simp
qed

theorem reconcile_single_shot_witness:
  "reconcile sampleDecls (SetRealId 9001)
     (sampleHistory (User \<lparr>isBot = False, isSupport = False\<rparr>),
      sampleItem (- 5) 0x800000)
   = Inr ((sampleHistory (User \<lparr>isBot = False, isSupport = False\<rparr>))
            \<lparr>localMessages := {}\<rparr>,
          sampleItem 9001 0,
          [NotifyItemIdChange 7 (- 5), RequestItemRepaint 7])
   \<and> reconcile sampleDecls SendFailed
        ((sampleHistory (User \<lparr>isBot = False, isSupport = False\<rparr>))
            \<lparr>localMessages := {}\<rparr>,
         sampleItem 9001 0)
      = Inl ExpectsFailed
   \<and> reconcileAll sampleDecls [SetRealId 9001, SendFailed, SetRealId 9002]
        (sampleHistory (User \<lparr>isBot = False, isSupport = False\<rparr>),
         sampleItem (- 5) 0x800000)
      = Inl ExpectsFailed"
proof -
  have first: "reconcile sampleDecls (SetRealId 9001)
     (sampleHistory (User \<lparr>isBot = False, isSupport = False\<rparr>),
      sampleItem (- 5) 0x800000)
   = Inr ((sampleHistory (User \<lparr>isBot = False, isSupport = False\<rparr>))
            \<lparr>localMessages := {}\<rparr>,
          sampleItem 9001 0,
          [NotifyItemIdChange 7 (- 5), RequestItemRepaint 7])"
    by (simp add: setRealId_def Let_def unregisterLocalMessage_def
        inlineReplyMarkup_def sample_simps)
  from reconcile_single_shot [OF first, of SendFailed "[SetRealId 9002]"] first
  show ?thesis by simp
qed

subsection \<open>Read state\<close>

text \<open>
  Claim C5. The decision table of \<open>unread\<close>. In a self-chat every message is read.
  Otherwise: an outgoing message with a server id is read once the read position has
  passed it, is read when the peer is a bot, and is read when the peer is a channel
  that is not a megagroup (it is unread exactly when none of these holds and the peer
  has no migrated-to successor); an outgoing message without a server id is unread
  exactly when the peer has no migrated-to successor; an incoming message with a
  server id is unread exactly when the read position has not passed it; an incoming
  message without a server id is unread exactly when its client-side-unread flag is
  set.
\<close>

theorem unread_decision_table:
  "(isSelf (peer h) \<longrightarrow> \<not> unread D h it)
   \<and> (\<not> isSelf (peer h) \<and> out D it \<and> IsServerMsgId D (itemId it) \<longrightarrow>
        (\<not> isServerSideUnread h it \<longrightarrow> \<not> unread D h it)
      \<and> (isBotPeer (peer h) \<longrightarrow> \<not> unread D h it)
      \<and> (isBroadcastChannel (peer h) \<longrightarrow> \<not> unread D h it)
      \<and> unread D h it =
          (migrateTo (peer h) = None \<and> isServerSideUnread h it
           \<and> \<not> isBotPeer (peer h) \<and> \<not> isBroadcastChannel (peer h)))
   \<and> (\<not> isSelf (peer h) \<and> out D it \<and> \<not> IsServerMsgId D (itemId it) \<longrightarrow>
        unread D h it = (migrateTo (peer h) = None))
   \<and> (\<not> isSelf (peer h) \<and> \<not> out D it \<and> IsServerMsgId D (itemId it) \<longrightarrow>
        unread D h it = isServerSideUnread h it)
   \<and> (\<not> isSelf (peer h) \<and> \<not> out D it \<and> \<not> IsServerMsgId D (itemId it) \<longrightarrow>
        unread D h it = hasFlag D it f_clientside_unread)"
  by (cases "kind (peer h)")
     (auto simp: unread_def isBotPeer_def isBroadcastChannel_def split: option.splits)

theorem unread_decision_table_witness:
  "unread sampleDecls selfHistory (sampleItem 9001 0x2) = False
   \<and> unread sampleDecls (sampleHistory (userPeer False)) (sampleItem 9001 0x2) = True
   \<and> unread sampleDecls (sampleHistory (userPeer True)) (sampleItem 9001 0x2) = False
   \<and> unread sampleDecls (sampleHistory (channelPeer False False)) (sampleItem 9001 0x2) = False
   \<and> unread sampleDecls (sampleHistory (userPeer False)) (sampleItem (- 5) 0x800002) = True
   \<and> unread sampleDecls (sampleHistory chatPeer) (sampleItem 9001 0) = True
   \<and> unread sampleDecls (sampleHistory chatPeer) (sampleItem (- 5) 0x2000000) = True
   \<and> unread sampleDecls (sampleHistory chatPeer) (sampleItem (- 5) 0) = False"
  using
    unread_decision_table [of selfHistory sampleDecls "sampleItem 9001 0x2"]
    unread_decision_table [of "sampleHistory (userPeer False)" sampleDecls "sampleItem 9001 0x2"]
    unread_decision_table [of "sampleHistory (userPeer True)" sampleDecls "sampleItem 9001 0x2"]
    unread_decision_table [of "sampleHistory (channelPeer False False)" sampleDecls "sampleItem 9001 0x2"]
    unread_decision_table [of "sampleHistory (userPeer False)" sampleDecls "sampleItem (- 5) 0x800002"]
    unread_decision_table [of "sampleHistory chatPeer" sampleDecls "sampleItem 9001 0"]
    unread_decision_table [of "sampleHistory chatPeer" sampleDecls "sampleItem (- 5) 0x2000000"]
    unread_decision_table [of "sampleHistory chatPeer" sampleDecls "sampleItem (- 5) 0"]
  by (simp add: out_def isServerSideUnread_def isBotPeer_def isBroadcastChannel_def
      sample_simps peer_simps)

subsection \<open>Deletion\<close>

text \<open>
  Claim C6. The decision table of \<open>canDelete\<close>. A log entry cannot be deleted, nor a
  service message without a server id. Otherwise: outside a channel the message can
  be deleted unless it is a group-migration marker; in a channel the message with id
  1 cannot be deleted, any other can when the channel grants the right to delete
  messages, and failing that exactly when the message is outgoing and a content
  message and, if it is a channel post, the channel grants the right to publish.
\<close>

theorem canDelete_decision_table:
  "(isLogEntry it \<longrightarrow> \<not> canDelete D h it)
   \<and> (\<not> IsServerMsgId D (itemId it) \<and> serviceMsg it \<longrightarrow> \<not> canDelete D h it)
   \<and> (\<not> isLogEntry it \<and> \<not> (\<not> IsServerMsgId D (itemId it) \<and> serviceMsg it) \<longrightarrow>
        (case asChannel (peer h) of
           None \<Rightarrow> canDelete D h it = (\<not> isGroupMigrate it)
         | Some channel \<Rightarrow>
             (itemId it = 1 \<longrightarrow> \<not> canDelete D h it)
           \<and> (itemId it \<noteq> 1 \<and> canDeleteMessages channel \<longrightarrow> canDelete D h it)
           \<and> (itemId it \<noteq> 1 \<and> \<not> canDeleteMessages channel \<longrightarrow>
                canDelete D h it =
                  (out D it \<and> toHistoryMessage it
                   \<and> (isPost D it \<longrightarrow> canPublish channel)))))"
  by (auto simp: canDelete_def split: option.splits)

theorem canDelete_decision_table_witness:
  "canDelete sampleDecls (sampleHistory chatPeer) (sampleItem 9001 0) = True
   \<and> canDelete sampleDecls (sampleHistory chatPeer)
        ((sampleItem 9001 0)\<lparr>isGroupMigrate := True\<rparr>) = False
   \<and> canDelete sampleDecls (sampleHistory chatPeer)
        ((sampleItem 9001 0)\<lparr>isLogEntry := True\<rparr>) = False
   \<and> canDelete sampleDecls (sampleHistory chatPeer)
        ((sampleItem (- 5) 0)\<lparr>serviceMsg := True\<rparr>) = False
   \<and> canDelete sampleDecls (sampleHistory (channelPeer False True)) (sampleItem 1 0) = False
   \<and> canDelete sampleDecls (sampleHistory (channelPeer False True)) (sampleItem 2 0) = True
   \<and> canDelete sampleDecls (sampleHistory (channelPeer True False)) (sampleItem 2 0x2) = True
   \<and> canDelete sampleDecls (sampleHistory (channelPeer False False)) (sampleItem 2 0x4002) = False
   \<and> canDelete sampleDecls (sampleHistory (channelPeer True False)) (sampleItem 2 0) = False"
  using
    canDelete_decision_table [of "sampleItem 9001 0" sampleDecls "sampleHistory chatPeer"]
    canDelete_decision_table [of "(sampleItem 9001 0)\<lparr>isGroupMigrate := True\<rparr>" sampleDecls "sampleHistory chatPeer"]
    canDelete_decision_table [of "(sampleItem 9001 0)\<lparr>isLogEntry := True\<rparr>" sampleDecls "sampleHistory chatPeer"]
    canDelete_decision_table [of "(sampleItem (- 5) 0)\<lparr>serviceMsg := True\<rparr>" sampleDecls "sampleHistory chatPeer"]
    canDelete_decision_table [of "sampleItem 1 0" sampleDecls "sampleHistory (channelPeer False True)"]
    canDelete_decision_table [of "sampleItem 2 0" sampleDecls "sampleHistory (channelPeer False True)"]
    canDelete_decision_table [of "sampleItem 2 0x2" sampleDecls "sampleHistory (channelPeer True False)"]
    canDelete_decision_table [of "sampleItem 2 0x4002" sampleDecls "sampleHistory (channelPeer False False)"]
    canDelete_decision_table [of "sampleItem 2 0" sampleDecls "sampleHistory (channelPeer True False)"]
  by (simp add: out_def isPost_def sample_simps peer_simps)

lemma sint_diff_nonneg:
  fixes a b :: "32 word"
  assumes "0 \<le> sint a" and "0 \<le> sint b"
  shows "sint (a - b) = sint a - sint b"
proof -
  have "sint a < 2 ^ 31" and "sint b < 2 ^ 31"
    using sint_lt [of a] sint_lt [of b] by simp_all
  with assms have "- (2 ^ 31) \<le> sint a - sint b" and "sint a - sint b < 2 ^ 31"
    by simp_all
  then have "signed_take_bit 31 (sint a - sint b) = sint a - sint b"
    by (simp add: signed_take_bit_int_eq_self)
  then show ?thesis by (simp add: sint_word_ariths)
qed

text \<open>
  Claim C7. \<open>canDeleteForEveryone now\<close> is false when the id is negative (the test the
  code makes for a provisional id), when the conversation is the self-chat, when the
  message is a channel post, and when \<open>now - date\<close> is at or beyond the revoke limit of
  the conversation kind. This holds for every value of the two limits. The age is
  taken both as the code computes it, in \<open>int32\<close>, and as the difference of two times
  that are not negative, where the two agree.
\<close>

theorem canDeleteForEveryone_refuses:
  assumes "itemId it <s 0
       \<or> isSelf (peer h)
       \<or> isPost D it
       \<or> revokeThreshold G h \<le>s now - date it
       \<or> (0 \<le> sint now \<and> 0 \<le> sint (date it)
          \<and> sint (revokeThreshold G h) \<le> sint now - sint (date it))"
  shows "\<not> canDeleteForEveryone D G h it now"
proof -
  from assms have
    "itemId it <s 0 \<or> isSelf (peer h) \<or> isPost D it
     \<or> revokeThreshold G h \<le>s now - date it"
    by (auto simp: word_sle_eq sint_diff_nonneg)
  then show ?thesis
    by (auto simp: canDeleteForEveryone_def messageTooOld_def revokeThreshold_def)
qed

theorem canDeleteForEveryone_refuses_witness:
  "revokeThreshold sampleGlobal (sampleHistory chatPeer) = 172800
   \<and> revokeThreshold sampleGlobal (sampleHistory chatPeer)
        \<le>s 1500172800 - date (sampleItem 9001 0x2)
   \<and> canDeleteForEveryone sampleDecls sampleGlobal (sampleHistory chatPeer)
        (sampleItem 9001 0x2) 1500172800 = False
   \<and> canDeleteForEveryone sampleDecls sampleGlobal (sampleHistory chatPeer)
        (sampleItem 9001 0x2) 1500172799 = True"
  using canDeleteForEveryone_refuses [of "sampleItem 9001 0x2" "sampleHistory chatPeer"
      sampleDecls sampleGlobal 1500172800]
  by (simp add: canDeleteForEveryone_def messageTooOld_def revokeThreshold_def
      out_def isPost_def sample_simps peer_simps)

subsection \<open>Media classification\<close>

text \<open>
  Claim C8. The table of \<open>CheckMessageMedia\<close>: a photo (or document) container
  without time-to-live is \<open>Empty\<close> when the inner object is absent or is the empty
  variant, and \<open>Good\<close> when it is a real one; with a time-to-live it is
  \<open>HasTimeToLive\<close>; a web page is \<open>Good\<close> for the real, the empty and the pending
  variant and \<open>Unsupported\<close> for the not-modified one; a geo point, venue or live
  location is \<open>Empty\<close> when its point is the empty variant and \<open>Good\<close> otherwise;
  unsupported media are \<open>Unsupported\<close>; everything else is \<open>Good\<close>.
\<close>

theorem CheckMessageMedia_table:
  "CheckMessageMedia (MTPDmessageMediaPhoto None None) = Empty
   \<and> CheckMessageMedia (MTPDmessageMediaPhoto (Some MTPDphotoEmpty) None) = Empty
   \<and> CheckMessageMedia (MTPDmessageMediaPhoto (Some MTPDphoto) None) = Good
   \<and> CheckMessageMedia (MTPDmessageMediaPhoto photo (Some ttl)) = HasTimeToLive
   \<and> CheckMessageMedia (MTPDmessageMediaDocument None None) = Empty
   \<and> CheckMessageMedia (MTPDmessageMediaDocument (Some MTPDdocumentEmpty) None) = Empty
   \<and> CheckMessageMedia (MTPDmessageMediaDocument (Some MTPDdocument) None) = Good
   \<and> CheckMessageMedia (MTPDmessageMediaDocument document (Some ttl)) = HasTimeToLive
   \<and> CheckMessageMedia (MTPDmessageMediaWebPage MTPDwebPage) = Good
   \<and> CheckMessageMedia (MTPDmessageMediaWebPage MTPDwebPageEmpty) = Good
   \<and> CheckMessageMedia (MTPDmessageMediaWebPage MTPDwebPagePending) = Good
   \<and> CheckMessageMedia (MTPDmessageMediaWebPage MTPDwebPageNotModified) = Unsupported
   \<and> CheckMessageMedia (MTPDmessageMediaGeo MTPDgeoPoint) = Good
   \<and> CheckMessageMedia (MTPDmessageMediaGeo MTPDgeoPointEmpty) = Empty
   \<and> CheckMessageMedia (MTPDmessageMediaVenue MTPDgeoPoint) = Good
   \<and> CheckMessageMedia (MTPDmessageMediaVenue MTPDgeoPointEmpty) = Empty
   \<and> CheckMessageMedia (MTPDmessageMediaGeoLive MTPDgeoPoint) = Good
   \<and> CheckMessageMedia (MTPDmessageMediaGeoLive MTPDgeoPointEmpty) = Empty
   \<and> CheckMessageMedia (MTPDmessageMediaGame game) = Good
   \<and> CheckMessageMedia MTPDmessageMediaEmpty = Good
   \<and> CheckMessageMedia MTPDmessageMediaContact = Good
   \<and> CheckMessageMedia MTPDmessageMediaInvoice = Good
   \<and> CheckMessageMedia MTPDmessageMediaPoll = Good
   \<and> CheckMessageMedia MTPDmessageMediaUnsupported = Unsupported"
  by (cases game) simp

theorem CheckMessageMedia_table_witness:
  "CheckMessageMedia (MTPDmessageMediaPhoto (Some MTPDphoto) (Some 60)) = HasTimeToLive
   \<and> CheckMessageMedia (MTPDmessageMediaDocument None (Some 60)) = HasTimeToLive
   \<and> CheckMessageMedia (MTPDmessageMediaPhoto None None) = Empty
   \<and> CheckMessageMedia (MTPDmessageMediaPhoto (Some MTPDphotoEmpty) None) = Empty
   \<and> CheckMessageMedia (MTPDmessageMediaWebPage MTPDwebPageNotModified) = Unsupported
   \<and> CheckMessageMedia (MTPDmessageMediaGame MTPDgame) = Good"
  using CheckMessageMedia_table [of "Some MTPDphoto" 60 None MTPDgame]
  by simp

subsection \<open>Notification text\<close>

text \<open>
  Claim C9. \<open>notificationText\<close> returns the summary (the media's notification text,
  or else the body text) unchanged when it has at most 255 characters, and otherwise
  its first 255 characters followed by the three-character marker \<open>...\<close>.
\<close>

theorem notificationText_limit:
  "(length (summary it) \<le> 255 \<longrightarrow> notificationText it = summary it)
   \<and> (255 < length (summary it) \<longrightarrow>
        notificationText it = take 255 (summary it) @ ellipsis
      \<and> length (notificationText it) = 255 + length ellipsis)
   \<and> (media it = None \<longrightarrow> summary it = itemText it)
   \<and> (case media it of Some m \<Rightarrow> summary it = media_notificationText m | None \<Rightarrow> True)
   \<and> length ellipsis = 3"
  by (auto simp: notificationText_def summary_def emptyText_def mid_def ellipsis_def
      kNotificationTextLimit_def Let_def split: option.splits)

theorem notificationText_limit_witness:
  "length (summary ((sampleItem 9001 0)\<lparr>itemText := replicate 300 0x61\<rparr>)) = 300
   \<and> notificationText ((sampleItem 9001 0)\<lparr>itemText := replicate 300 0x61\<rparr>)
      = replicate 255 0x61 @ [0x2E, 0x2E, 0x2E]
   \<and> length (summary ((sampleItem 9001 0)\<lparr>itemText := replicate 200 0x61\<rparr>)) = 200
   \<and> notificationText ((sampleItem 9001 0)\<lparr>itemText := replicate 200 0x61\<rparr>)
      = replicate 200 0x61"
  using
    notificationText_limit [of "(sampleItem 9001 0)\<lparr>itemText := replicate 300 0x61\<rparr>"]
    notificationText_limit [of "(sampleItem 9001 0)\<lparr>itemText := replicate 200 0x61\<rparr>"]
  by (simp add: sample_simps ellipsis_def)

subsection \<open>Frame of \<open>markMediaRead\<close>\<close>

text \<open>
  Claim C10. \<open>markMediaRead\<close> clears the unread-media flag and changes nothing else
  of the message: id, date, group id and components are the same, every bit of the
  flags outside the unread-media mask is the same, and so is every flag whose mask is
  disjoint from it.
\<close>

theorem markMediaRead_frame:
  "case markMediaRead D (h, it) of
     (h', it', evs) \<Rightarrow>
       \<not> hasFlag D it' f_media_unread
     \<and> h' = h
     \<and> it'\<lparr>flags := flags it\<rparr> = it
     \<and> itemId it' = itemId it
     \<and> date it' = date it
     \<and> groupId it' = groupId it
     \<and> components it' = components it
     \<and> (\<forall>n. \<not> bit (flag D f_media_unread) n \<longrightarrow> bit (flags it') n = bit (flags it) n)
     \<and> (\<forall>f. flag D f AND flag D f_media_unread = 0 \<longrightarrow> hasFlag D it' f = hasFlag D it f)"
proof -
  have frame: "(x AND NOT m) AND k = x AND k" if "k AND m = 0" for x m k :: "32 word"
  proof -
    have "\<not> (bit k n \<and> bit m n)" for n
    proof -
      from that have "bit (k AND m) n = bit (0 :: 32 word) n"
        by simp
      then show ?thesis by (simp add: bit_and_iff)
    qed
    then show ?thesis
      by (auto simp: bit_eq_iff bit_simps)
  qed
  show ?thesis
    by (auto simp: markMediaRead_def Let_def hasFlag_def flags_clear frame bit_simps
        dest: bit_imp_le_length)
qed

theorem markMediaRead_frame_witness:
  "markMediaRead sampleDecls (sampleHistory chatPeer, sampleItem 9001 0x2E04032)
     = (sampleHistory chatPeer, sampleItem 9001 0x2E04012,
        [UpdateChatListEntry, EraseFromUnreadMentions 9001])
   \<and> hasFlag sampleDecls (sampleItem 9001 0x2E04032) f_media_unread
   \<and> hasFlag sampleDecls (sampleItem 9001 0x2E04012) f_media_unread = False
   \<and> hasFlag sampleDecls (sampleItem 9001 0x2E04012) f_sending
   \<and> hasFlag sampleDecls (sampleItem 9001 0x2E04012) f_failed
   \<and> hasFlag sampleDecls (sampleItem 9001 0x2E04012) f_mentioned
   \<and> hasFlag sampleDecls (sampleItem 9001 0x2E04012) f_out
   \<and> hasFlag sampleDecls (sampleItem 9001 0x2E04012) f_post
   \<and> hasFlag sampleDecls (sampleItem 9001 0x2E04012) f_clientside_unread"
  using markMediaRead_frame [of sampleDecls "sampleHistory chatPeer" "sampleItem 9001 0x2E04032"]
  by (simp add: markMediaRead_def mentionsMe_def Let_def sample_simps peer_simps)

end
